theory Spec2Isabelle
  imports Complex_Main
begin

section \<open>Vectors\<close>

text \<open>
  \<open>Util::Vector\<close>, \<open>Util::IntVector\<close>, \<open>Util::Tensor\<close> and \<open>Util::Pair\<close> are used by the
  sources below but declared elsewhere. A \<open>Vector\<close> is three doubles, an \<open>IntVector\<close>
  three ints, a \<open>Pair<int>\<close> two ints. A double is modelled as a real number: rounding,
  infinities and NaN are outside the model.

  Isabelle reserves the names that end in an underscore, so a data member \<open>x_\<close> of the
  sources is named \<open>x_m\<close> throughout.
\<close>

type_synonym Vector = "real \<times> real \<times> real"

type_synonym IntVector = "int \<times> int \<times> int"

type_synonym Tensor = "Vector \<times> Vector \<times> Vector"

section \<open>Machine integers\<close>

text \<open>
  An \<open>int\<close> of the sources has 32 bits. In the model it is an integer, and \<open>int32\<close>
  gives the value that is left of a result when it is stored in 32 bits (two's
  complement: \<open>2^31\<close> becomes \<open>- 2^31\<close>). The C++ standard leaves the overflow of a signed
  int undefined; the model takes the wrap-around of the usual targets.
\<close>

definition int32 :: "int \<Rightarrow> int" where
  "int32 x = (x + 2 ^ 31) mod 2 ^ 32 - 2 ^ 31"

section \<open>Failures\<close>

text \<open>
  A run of the program ends early when an \<open>assert\<close> fails or when \<open>UTIL_THROW\<close> throws
  an exception. Both are results: \<open>Inl\<close> of the failure, with the text of the assertion
  or the message of the exception. \<open>bind_failure\<close> passes the first failure on.
\<close>

datatype failure = AssertionFailed string | Exception string


section \<open>MdCoulombPotential\<close>

text \<open>
  Modelled from the spec: \<open>Util::Setable<T>\<close>, the type of \<open>kSpaceEnergy_\<close> and
  \<open>kSpaceStress_\<close>, is not among the sources. The spec describes it as an Option-like cached
  value with the states Unset and Set: \<open>None\<close> is Unset, \<open>Some v\<close> is Set with value \<open>v\<close>.
  Reading the value of an unset object has no result (\<open>None\<close>).
\<close>

type_synonym 'a Setable = "'a option"

definition unset :: "'a Setable \<Rightarrow> 'a Setable" where
  "unset s = None"

definition isSet :: "'a Setable \<Rightarrow> bool" where
  "isSet s = (s \<noteq> None)"

definition value_Setable :: "'a Setable \<Rightarrow> 'a option" where
  "value_Setable s = s"

text \<open>
  The data members of \<open>MdCoulombPotential\<close> that the member functions below read or write.
  The record is extensible: the members of a derived class live in the extension.
\<close>

record MdCoulombPotential =
  isInitialized_m :: bool
  hasWaves_m :: bool
  kSpaceEnergy_m :: "real Setable"
  kSpaceStress_m :: "Tensor Setable"

text \<open>
  How often the pure virtual routines \<open>computeEnergy()\<close> and \<open>computeStress()\<close> of the
  derived class have been invoked. The counters are kept beside the object, so that the
  routines themselves cannot touch them.
\<close>

record Calls =
  nComputeEnergy :: nat
  nComputeStress :: nat

definition unsetWaves :: "'a MdCoulombPotential_scheme \<Rightarrow> 'a MdCoulombPotential_scheme" where
  "unsetWaves s = s\<lparr>hasWaves_m := False\<rparr>"

definition unsetEnergy :: "'a MdCoulombPotential_scheme \<Rightarrow> 'a MdCoulombPotential_scheme" where
  "unsetEnergy s = s\<lparr>kSpaceEnergy_m := unset (kSpaceEnergy_m s)\<rparr>"

definition unsetStress :: "'a MdCoulombPotential_scheme \<Rightarrow> 'a MdCoulombPotential_scheme" where
  "unsetStress s = s\<lparr>kSpaceStress_m := unset (kSpaceStress_m s)\<rparr>"

text \<open>
  \<open>kSpaceEnergy()\<close> and \<open>kSpaceStress()\<close>. The virtual \<open>computeEnergy()\<close> and
  \<open>computeStress()\<close> that they call belong to a derived class; here they are parameters,
  acting on the whole object. The result is the value returned (\<open>None\<close> when \<open>value()\<close> is
  read from an unset cache), the object and the call counters.
\<close>

definition kSpaceEnergy ::
  "('a MdCoulombPotential_scheme \<Rightarrow> 'a MdCoulombPotential_scheme) \<Rightarrow>
   'a MdCoulombPotential_scheme \<times> Calls \<Rightarrow>
   real option \<times> 'a MdCoulombPotential_scheme \<times> Calls" where
  "kSpaceEnergy computeEnergy w =
     (let (s, c) = w;
          (s', c') = (if \<not> isSet (kSpaceEnergy_m s)
                      then (computeEnergy s, c\<lparr>nComputeEnergy := nComputeEnergy c + 1\<rparr>)
                      else (s, c))
      in (value_Setable (kSpaceEnergy_m s'), s', c'))"

definition kSpaceStress ::
  "('a MdCoulombPotential_scheme \<Rightarrow> 'a MdCoulombPotential_scheme) \<Rightarrow>
   'a MdCoulombPotential_scheme \<times> Calls \<Rightarrow>
   Tensor option \<times> 'a MdCoulombPotential_scheme \<times> Calls" where
  "kSpaceStress computeStress w =
     (let (s, c) = w;
          (s', c') = (if \<not> isSet (kSpaceStress_m s)
                      then (computeStress s, c\<lparr>nComputeStress := nComputeStress c + 1\<rparr>)
                      else (s, c))
      in (value_Setable (kSpaceStress_m s'), s', c'))"

text \<open>
  Modelled from the spec: the routines \<open>computeEnergy()\<close> and \<open>computeStress()\<close> of the
  derived class, which are not among the sources. The spec says that a read of an unset
  quantity "triggers a recompute (via the subclass's energy/stress routines), then
  transitions to Set": the routine computes a value from the object, may change the
  members of the derived class, and sets the cached quantity to the value. The value
  computed (\<open>energy\<close>, \<open>stress\<close>) and the change of the derived members (\<open>update\<close>) are
  parameters.
\<close>

definition computeEnergy ::
  "('a MdCoulombPotential_scheme \<Rightarrow> real) \<Rightarrow> ('a \<Rightarrow> 'a) \<Rightarrow>
   'a MdCoulombPotential_scheme \<Rightarrow> 'a MdCoulombPotential_scheme" where
  "computeEnergy energy update s =
     s\<lparr>kSpaceEnergy_m := Some (energy s), MdCoulombPotential.more := update (MdCoulombPotential.more s)\<rparr>"

definition computeStress ::
  "('a MdCoulombPotential_scheme \<Rightarrow> Tensor) \<Rightarrow> ('a \<Rightarrow> 'a) \<Rightarrow>
   'a MdCoulombPotential_scheme \<Rightarrow> 'a MdCoulombPotential_scheme" where
  "computeStress stress update s =
     s\<lparr>kSpaceStress_m := Some (stress s), MdCoulombPotential.more := update (MdCoulombPotential.more s)\<rparr>"

text \<open>
  A derived class for the examples, without members of its own: its energy is 7 when the
  waves are there and 8 otherwise, its stress is the unit tensor.
\<close>

definition exampleEnergyOf :: "MdCoulombPotential \<Rightarrow> real" where
  "exampleEnergyOf s = (if hasWaves_m s then 7 else 8)"

definition exampleStressOf :: "MdCoulombPotential \<Rightarrow> Tensor" where
  "exampleStressOf s = ((1, 0, 0), (0, 1, 0), (0, 0, 1))"

definition examplePotential :: MdCoulombPotential where
  "examplePotential =
     \<lparr>isInitialized_m = True, hasWaves_m = True, kSpaceEnergy_m = Some 3,
      kSpaceStress_m = Some ((2, 0, 0), (0, 2, 0), (0, 0, 2))\<rparr>"

section \<open>SpCell\<close>

text \<open>
  A pointer is the number of the array slot it points to; the null pointer is 0, and
  pointer arithmetic counts slots. The ints \<open>nAtom_\<close> and \<open>atomCapacity_\<close> have 32 bits:
  \<open>++\<close> stores \<open>int32\<close> of the successor. Assertions are enabled: a failed assertion
  is the result \<open>Inl\<close> with the text of the assertion.
\<close>

type_synonym pointer = int

record SpCell =
  begin_m :: pointer
  offsetsPtr_m :: pointer
  nextSpCellPtr_m :: pointer
  nAtom_m :: int
  atomCapacity_m :: int
  id_m :: int
  isGhostSpCell_m :: bool

text \<open>
  The array of \<open>SpCellAtom\<close> objects that \<open>begin_\<close> points into is owned elsewhere, and
  \<open>SpCellAtom\<close> is not among the sources: the memory is a function from the slot to the
  \<open>Atom*\<close> that \<open>setPtr\<close> stored there.
\<close>

type_synonym memory = "pointer \<Rightarrow> pointer"

definition incrementCapacity :: "SpCell \<Rightarrow> failure + SpCell" where
  "incrementCapacity c =
     (if begin_m c \<noteq> 0 then Inl (AssertionFailed ''begin_ == 0'')
      else Inr (c\<lparr>atomCapacity_m := int32 (atomCapacity_m c + 1)\<rparr>))"

definition clear :: "SpCell \<Rightarrow> SpCell" where
  "clear c = c\<lparr>begin_m := 0, nAtom_m := 0, atomCapacity_m := 0\<rparr>"

definition initialize :: "pointer \<Rightarrow> SpCell \<Rightarrow> failure + (pointer \<times> SpCell)" where
  "initialize begin c =
     (if begin_m c \<noteq> 0 then Inl (AssertionFailed ''begin_ == 0'')
      else if nAtom_m c \<noteq> 0 then Inl (AssertionFailed ''nAtom_ == 0'')
      else if \<not> atomCapacity_m c \<ge> 0 then Inl (AssertionFailed ''atomCapacity_  >= 0'')
      else let c' = c\<lparr>begin_m := begin\<rparr>
           in Inr (begin_m c' + atomCapacity_m c', c'))"

definition append :: "pointer \<Rightarrow> SpCell \<times> memory \<Rightarrow> failure + (SpCell \<times> memory)" where
  "append atomPtr cm =
     (let (c, m) = cm in
      if \<not> begin_m c \<noteq> 0 then Inl (AssertionFailed ''begin_ != 0'')
      else if \<not> nAtom_m c < atomCapacity_m c then Inl (AssertionFailed ''nAtom_ < atomCapacity_'')
      else Inr (c\<lparr>nAtom_m := int32 (nAtom_m c + 1)\<rparr>, m(begin_m c + nAtom_m c := atomPtr)))"

definition atomCapacity :: "SpCell \<Rightarrow> int" where
  "atomCapacity c = atomCapacity_m c"

definition nAtom :: "SpCell \<Rightarrow> int" where
  "nAtom c = nAtom_m c"

text \<open>
  The caller's loops of the build protocol: \<open>n\<close> calls of \<open>incrementCapacity()\<close>, and one
  \<open>append\<close> for each atom pointer of a list. The first failed assertion ends the run.
\<close>

fun incrementCapacityTimes :: "nat \<Rightarrow> SpCell \<Rightarrow> failure + SpCell" where
  "incrementCapacityTimes 0 c = Inr c"
| "incrementCapacityTimes (Suc n) c =
     (case incrementCapacity c of
        Inl e \<Rightarrow> Inl e
      | Inr c' \<Rightarrow> incrementCapacityTimes n c')"

fun appendAll :: "pointer list \<Rightarrow> SpCell \<times> memory \<Rightarrow> failure + (SpCell \<times> memory)" where
  "appendAll [] cm = Inr cm"
| "appendAll (a # as) cm =
     (case append a cm of
        Inl e \<Rightarrow> Inl e
      | Inr cm' \<Rightarrow> appendAll as cm')"

definition exampleCell :: SpCell where
  "exampleCell =
     \<lparr>begin_m = 40, offsetsPtr_m = 0, nextSpCellPtr_m = 0, nAtom_m = 5, atomCapacity_m = 9,
      id_m = 3, isGhostSpCell_m = False\<rparr>"

section \<open>TextFileOArchive\<close>

text \<open>
  \<open>std::ostream\<close> belongs to the C++ standard library. Its model keeps what the archive
  sets and what formatted output reads: the format flags, the field width, the precision,
  and a log of what was written. Of the flags only those that select the floating-point
  notation are told apart by name; the error state of a stream is not modelled (the
  stream is good).
\<close>

datatype fmtflag = scientific | fixed | showpoint | showpos | uppercase

text \<open>A value handed to \<open>operator<<\<close>: the \<open>T\<close> of the generic \<open>pack\<close>.\<close>

datatype datum = DoubleV real | IntV int | BoolV bool | CharV char | StringV string

text \<open>
  One entry of the log: a value together with the flags, the width and the precision
  under which it was formatted, or the line break of \<open>std::endl\<close>.
\<close>

datatype logged = Inserted datum "fmtflag set" nat nat | Newline

record ostream =
  fmt_flags :: "fmtflag set"
  fmt_width :: nat
  fmt_precision :: nat
  written :: "logged list"

text \<open>
  \<open>os.setf(f)\<close> with one argument adds \<open>f\<close> to the flags and clears none;
  \<open>os.width(n)\<close> and \<open>os.precision(n)\<close> set the width and the precision.
\<close>

definition setf :: "fmtflag \<Rightarrow> ostream \<Rightarrow> ostream" where
  "setf f os = os\<lparr>fmt_flags := fmt_flags os \<union> {f}\<rparr>"

definition width :: "nat \<Rightarrow> ostream \<Rightarrow> ostream" where
  "width n os = os\<lparr>fmt_width := n\<rparr>"

definition precision :: "nat \<Rightarrow> ostream \<Rightarrow> ostream" where
  "precision n os = os\<lparr>fmt_precision := n\<rparr>"

text \<open>
  \<open>os << x\<close> formats \<open>x\<close> under the current flags, width and precision, and then resets the
  width to 0; the flags and the precision stay. \<open>os << std::endl\<close> writes a line break
  (and flushes, which writes nothing).
\<close>

definition ostream_insert :: "datum \<Rightarrow> ostream \<Rightarrow> ostream" where
  "ostream_insert x os =
     os\<lparr>written := written os @ [Inserted x (fmt_flags os) (fmt_width os) (fmt_precision os)],
        fmt_width := 0\<rparr>"

definition endl :: "ostream \<Rightarrow> ostream" where
  "endl os = os\<lparr>written := written os @ [Newline]\<rparr>"

text \<open>
  The notation in which the standard library writes a floating-point value: \<open>%f\<close> when of
  \<open>fixed\<close> and \<open>scientific\<close> only \<open>fixed\<close> is set, \<open>%e\<close> when only \<open>scientific\<close> is set, and
  another conversion otherwise (\<open>%g\<close> when neither is set; with both set \<open>%g\<close> before
  C++11 and the hexadecimal \<open>%a\<close> since). With \<open>%e\<close> the precision is the number of digits
  after the decimal point, and one digit stands before it.
\<close>

datatype conversion = FixedNotation | ScientificNotation | OtherNotation

definition floatfield :: "fmtflag set \<Rightarrow> conversion" where
  "floatfield fl =
     (if fixed \<in> fl \<and> scientific \<notin> fl then FixedNotation
      else if scientific \<in> fl \<and> fixed \<notin> fl then ScientificNotation
      else OtherNotation)"

definition significantDigits :: "logged \<Rightarrow> nat option" where
  "significantDigits out =
     (case out of
        Inserted (DoubleV d) fl w p \<Rightarrow>
          (if floatfield fl = ScientificNotation then Some (1 + p) else None)
      | _ \<Rightarrow> None)"

text \<open>
  The member functions \<open>pack\<close> of the archive, acting on the stream that \<open>ostreamPtr_\<close>
  points to: the generic \<open>pack(const T&)\<close>, its specialisation for \<open>double\<close>, and
  \<open>pack(const T* array, int n)\<close>, whose argument is the list of the \<open>n\<close> elements.
\<close>

definition pack :: "datum \<Rightarrow> ostream \<Rightarrow> ostream" where
  "pack data os = endl (ostream_insert data os)"

definition pack_double :: "real \<Rightarrow> ostream \<Rightarrow> ostream" where
  "pack_double data os =
     (let os1 = setf scientific os;
          os2 = width 25 os1;
          os3 = precision 17 os2
      in endl (ostream_insert (DoubleV data) os3))"

fun pack_array_loop :: "datum list \<Rightarrow> ostream \<Rightarrow> ostream" where
  "pack_array_loop [] os = os"
| "pack_array_loop (x # xs) os =
     pack_array_loop xs (ostream_insert (StringV ''  '') (ostream_insert x os))"

definition pack_array :: "datum list \<Rightarrow> ostream \<Rightarrow> ostream" where
  "pack_array array os = endl (pack_array_loop array os)"

text \<open>
  What may be written to the stream after a double has been packed: the archive's three
  \<open>pack\<close> functions, and another writer that inserts a value or a line break without
  changing the format state of the stream.
\<close>

datatype writer = Pack datum | PackDouble real | PackArray "datum list"
  | OtherInsert datum | OtherEndl

fun writeOne :: "writer \<Rightarrow> ostream \<Rightarrow> ostream" where
  "writeOne (Pack x) os = pack x os"
| "writeOne (PackDouble d) os = pack_double d os"
| "writeOne (PackArray xs) os = pack_array xs os"
| "writeOne (OtherInsert x) os = ostream_insert x os"
| "writeOne OtherEndl os = endl os"

fun writes :: "writer list \<Rightarrow> ostream \<Rightarrow> ostream" where
  "writes [] os = os"
| "writes (w # ws) os = writes ws (writeOne w os)"

fun isPackDouble :: "writer \<Rightarrow> bool" where
  "isPackDouble (PackDouble d) = True"
| "isPackDouble w = False"

text \<open>What an entry of the log says about the state in which it was written.\<close>

fun insertedUnder :: "fmtflag set \<Rightarrow> nat set \<Rightarrow> nat \<Rightarrow> logged \<Rightarrow> bool" where
  "insertedUnder fl ws p (Inserted x fl' w' p') = (fl' = fl \<and> w' \<in> ws \<and> p' = p)"
| "insertedUnder fl ws p Newline = True"

definition freshStream :: ostream where
  "freshStream = \<lparr>fmt_flags = {}, fmt_width = 0, fmt_precision = 6, written = []\<rparr>"

definition fixedStream :: ostream where
  "fixedStream = \<lparr>fmt_flags = {fixed}, fmt_width = 0, fmt_precision = 6, written = []\<rparr>"

text \<open>
  The format state that \<open>pack\<close> of a double leaves behind: the given flags, width 0
  and precision 17.
\<close>

definition settled :: "fmtflag set \<Rightarrow> ostream \<Rightarrow> bool" where
  "settled fl os = (fmt_flags os = fl \<and> fmt_width os = 0 \<and> fmt_precision os = 17)"

section \<open>FineEwaldCoulombPotential\<close>

subsection \<open>Vectors, arrays and the boundary\<close>

text \<open>
  The operations of \<open>Util::Vector\<close> that the potential calls: \<open>v += w\<close>,
  \<open>v.multiply(w, s)\<close> (which sets \<open>v\<close> to \<open>w\<close> times \<open>s\<close>), \<open>v.square()\<close>, \<open>v.abs()\<close>
  and \<open>v.dot(w)\<close>. The class is not among the sources; the operations are what their
  names say.
\<close>

definition Vector_add :: "Vector \<Rightarrow> Vector \<Rightarrow> Vector" where
  "Vector_add v w = (fst v + fst w, fst (snd v) + fst (snd w), snd (snd v) + snd (snd w))"

definition Vector_multiply :: "Vector \<Rightarrow> real \<Rightarrow> Vector" where
  "Vector_multiply w s = (fst w * s, fst (snd w) * s, snd (snd w) * s)"

definition Vector_dot :: "Vector \<Rightarrow> Vector \<Rightarrow> real" where
  "Vector_dot v w = fst v * fst w + fst (snd v) * fst (snd w) + snd (snd v) * snd (snd w)"

definition Vector_square :: "Vector \<Rightarrow> real" where
  "Vector_square v = Vector_dot v v"


text \<open>
  The growable array \<open>Util::GArray\<close> is not among the sources either. What the potential
  relies on is kept: the elements in order, and a capacity. \<open>reserve(n)\<close> raises the
  capacity to \<open>n\<close>; \<open>clear()\<close> removes the elements and keeps the capacity; \<open>append\<close> adds
  an element at the end, and makes room for it when the array is full (by how much is
  not known, the model makes room for the one element); \<open>resize(n)\<close> cuts the array to
  \<open>n\<close> elements or fills it up to \<open>n\<close> elements with zeros. A subscript outside the
  array is a failure.
\<close>

record 'a GArray =
  elems :: "'a list"
  capacity :: int

definition GArray_size :: "'a GArray \<Rightarrow> int" where
  "GArray_size a = int (length (elems a))"



definition GArray_append :: "'a \<Rightarrow> 'a GArray \<Rightarrow> 'a GArray" where
  "GArray_append x a =
     a\<lparr>elems := elems a @ [x], capacity := max (capacity a) (GArray_size a + 1)\<rparr>"




text \<open>
  The boundary (\<open>boundaryPtr_\<close>) is not among the sources: its reciprocal and Bravais
  basis vectors, its volume and its map from Cartesian to generalized coordinates are
  parameters.
\<close>

record Boundary =
  reciprocalBasisVector :: "nat \<Rightarrow> Vector"
  bravaisBasisVector :: "nat \<Rightarrow> Vector"
  volume :: real
  transformCartToGen :: "Vector \<Rightarrow> Vector"

subsection \<open>The data members\<close>

record FineEwaldCoulombPotential =
  alpha_m :: real
  epsilon_m :: real
  kCutoff_m :: real
  waves_m :: "IntVector GArray"
  ksq_m :: "real GArray"
  g_m :: "real GArray"
  rho_m :: "complex GArray"
  range0_m :: "int \<times> int"
  range1_m :: "(int \<times> int) GArray"
  range2_m :: "(int \<times> int) GArray"
  fexp0_m :: "complex GArray"
  fexp1_m :: "complex GArray"
  fexp2_m :: "complex GArray"
  base0_m :: int
  base1_m :: int
  base2_m :: int


subsection \<open>makeWaves\<close>



text \<open>
  The local variables of the wave loops that do not change (\<open>prefactor\<close>, \<open>kCutoffSq\<close>,
  the reciprocal basis vectors and \<open>maxK\<close>), and the state of the loops: the locals
  \<open>upper0\<close>, \<open>upper1\<close>, \<open>upper2\<close> and the object.
\<close>

record WaveLocals =
  prefactor :: real
  kCutoffSq :: real
  b0 :: Vector
  b1 :: Vector
  b2 :: Vector
  maxK :: IntVector

record WaveScan =
  upper0 :: int
  upper1 :: int
  upper2 :: int
  pot :: FineEwaldCoulombPotential

text \<open>The body of \<open>if (ksq <= kCutoffSq)\<close>.\<close>

definition acceptWave :: "WaveLocals \<Rightarrow> IntVector \<Rightarrow> real \<Rightarrow> WaveScan \<Rightarrow> WaveScan" where
  "acceptWave L k ksq sc =
     (let (k0, k1, k2) = k;
          p = pot sc
      in sc\<lparr>upper0 := (if k0 > upper0 sc then k0 else upper0 sc),
            upper1 := (if k1 > upper1 sc then k1 else upper1 sc),
            upper2 := (if k2 > upper2 sc then k2 else upper2 sc),
            pot := p\<lparr>base1_m := (if k1 < base1_m p then k1 else base1_m p),
                     base2_m := (if k2 < base2_m p then k2 else base2_m p),
                     waves_m := GArray_append k (waves_m p),
                     ksq_m := GArray_append ksq (ksq_m p),
                     g_m := GArray_append (exp (prefactor L * ksq) / ksq) (g_m p)\<rparr>\<rparr>)"

text \<open>
  The three nested loops, innermost first. Each takes the running index and the partial
  wavevector as they are before the body of the loop.
\<close>

function loopK2 :: "WaveLocals \<Rightarrow> int \<Rightarrow> int \<Rightarrow> int \<Rightarrow> Vector \<Rightarrow> WaveScan \<Rightarrow> WaveScan" where
  "loopK2 L k0 k1 k2 q sc =
     (if k2 \<le> snd (snd (maxK L)) then
        let q' = Vector_add q (b2 L);
            ksq = Vector_square q';
            sc' = (if ksq \<le> kCutoffSq L then acceptWave L (k0, k1, k2) ksq sc else sc)
        in loopK2 L k0 k1 (k2 + 1) q' sc'
      else sc)"
  by pat_completeness auto
termination
  by (relation "measure (\<lambda>(L, k0, k1, k2, q, sc). nat (snd (snd (maxK L)) + 1 - k2))") auto

function loopK1 :: "WaveLocals \<Rightarrow> int \<Rightarrow> int \<Rightarrow> Vector \<Rightarrow> WaveScan \<Rightarrow> WaveScan" where
  "loopK1 L k0 k1 q1 sc =
     (if k1 \<le> fst (snd (maxK L)) then
        let q1' = Vector_add q1 (b1 L);
            mink2 = (if k0 = 0 \<and> k1 = 0 then 1 else - snd (snd (maxK L)));
            q = Vector_add (Vector_multiply (b2 L) (of_int (mink2 - 1))) q1';
            sc' = loopK2 L k0 k1 mink2 q sc
        in loopK1 L k0 (k1 + 1) q1' sc'
      else sc)"
  by pat_completeness auto
termination
  by (relation "measure (\<lambda>(L, k0, k1, q1, sc). nat (fst (snd (maxK L)) + 1 - k1))") auto

function loopK0 :: "WaveLocals \<Rightarrow> int \<Rightarrow> Vector \<Rightarrow> WaveScan \<Rightarrow> WaveScan" where
  "loopK0 L k0 q0 sc =
     (if k0 \<le> fst (maxK L) then
        let q0' = Vector_add q0 (b0 L);
            mink1 = (if k0 = 0 then 0 else - fst (snd (maxK L)));
            q1 = Vector_add (Vector_multiply (b1 L) (of_int (mink1 - 1))) q0';
            sc' = loopK1 L k0 mink1 q1 sc
        in loopK0 L (k0 + 1) q0' sc'
      else sc)"
  by pat_completeness auto
termination
  by (relation "measure (\<lambda>(L, k0, q0, sc). nat (fst (maxK L) + 1 - k0))") auto







subsection \<open>The waves, described directly\<close>



















text \<open>
  An example: a cubic box of side \<open>2 pi\<close>, whose reciprocal basis is the unit basis, and a
  potential with \<open>alpha = 1\<close>, \<open>epsilon = 1\<close> and \<open>kCutoff = 1\<close>.
\<close>

definition cubicBoundary :: Boundary where
  "cubicBoundary =
     \<lparr>reciprocalBasisVector =
        (\<lambda>j. if j = 0 then (1, 0, 0) else if j = 1 then (0, 1, 0) else (0, 0, 1)),
      bravaisBasisVector =
        (\<lambda>j. if j = 0 then (2 * pi, 0, 0) else if j = 1 then (0, 2 * pi, 0) else (0, 0, 2 * pi)),
      volume = 2 * pi * (2 * pi) * (2 * pi),
      transformCartToGen = (\<lambda>r. Vector_multiply r (1 / (2 * pi)))\<rparr>"


subsection \<open>Atoms and the charge density\<close>

text \<open>
  The loops over species, molecules and atoms visit the atoms of the system in a fixed
  order: the system is the list of its atoms in this order. Of an atom the potential
  reads the position and the type id and updates the force. The charge of an atom type,
  \<open>(*atomTypesPtr_)[type].charge()\<close>, is a function of the type id.
\<close>

record Atom =
  position :: Vector
  force :: Vector
  typeId :: int

type_synonym AtomTypes = "int \<Rightarrow> real"




subsection \<open>kspaceEnergy\<close>



text \<open>
  The Fourier mode of the charge density for the wave \<open>k\<close>, written as a sum over the
  atoms: the description that \<open>computeKSpaceCharge\<close> is compared with.
\<close>

definition chargeDensity :: "Boundary \<Rightarrow> AtomTypes \<Rightarrow> Atom list \<Rightarrow> IntVector \<Rightarrow> complex" where
  "chargeDensity bd types atoms k =
     (\<Sum>a\<leftarrow>atoms.
        of_real (types (typeId a)) *
        cis (2 * pi * Vector_dot (transformCartToGen bd (position a))
               (of_int (fst k), of_int (fst (snd k)), of_int (snd (snd k)))))"

subsection \<open>addKSpaceForces\<close>














text \<open>
  The atoms of the examples: two atom types, of charge 1 and of charge \<open>10^-11\<close> (below
  the threshold \<open>EPS\<close>), an atom of the first type at the origin and an atom of the second
  type a quarter of the box above it.
\<close>

definition exampleTypes :: AtomTypes where
  "exampleTypes t = (if t = 0 then 1 else 1 / 10 ^ 11)"

definition exampleAtomA :: Atom where
  "exampleAtomA = \<lparr>position = (0, 0, 0), force = (0, 0, 0), typeId = 0\<rparr>"








section \<open>Properties of MdCoulombPotential\<close>

lemma kSpaceEnergy_unset:
  "\<not> isSet (kSpaceEnergy_m s) \<Longrightarrow>
   kSpaceEnergy compute (s, c) =
     (kSpaceEnergy_m (compute s), compute s, c\<lparr>nComputeEnergy := nComputeEnergy c + 1\<rparr>)"
  by (simp add: kSpaceEnergy_def value_Setable_def)

lemma kSpaceEnergy_set:
  "isSet (kSpaceEnergy_m s) \<Longrightarrow> kSpaceEnergy compute (s, c) = (kSpaceEnergy_m s, s, c)"
  by (simp add: kSpaceEnergy_def value_Setable_def)

lemma kSpaceStress_unset:
  "\<not> isSet (kSpaceStress_m s) \<Longrightarrow>
   kSpaceStress compute (s, c) =
     (kSpaceStress_m (compute s), compute s, c\<lparr>nComputeStress := nComputeStress c + 1\<rparr>)"
  by (simp add: kSpaceStress_def value_Setable_def)

lemma kSpaceStress_set:
  "isSet (kSpaceStress_m s) \<Longrightarrow> kSpaceStress compute (s, c) = (kSpaceStress_m s, s, c)"
  by (simp add: kSpaceStress_def value_Setable_def)

lemma isSet_not_None: "isSet x \<Longrightarrow> (x = None) = False"
  by (simp add: isSet_def)

lemma computeEnergy_sets:
  "kSpaceEnergy_m (computeEnergy energy update s) = Some (energy s)"
  "isSet (kSpaceEnergy_m (computeEnergy energy update s))"
  by (simp_all add: computeEnergy_def isSet_def)

lemma computeStress_sets:
  "kSpaceStress_m (computeStress stress update s) = Some (stress s)"
  "isSet (kSpaceStress_m (computeStress stress update s))"
  by (simp_all add: computeStress_def isSet_def)

text \<open>
  Claim C4. Whatever the derived class computes as energy and as stress, and however its
  routines change its own members: for the energy and for the stress alike, a read of an
  unset cache invokes the routine of the derived class once, leaves the cache set and
  returns the value that the routine has stored; a read of a set cache returns the cached
  value, invokes nothing and changes nothing; and of two consecutive reads the second
  returns the value of the first and changes nothing, so that both together invoke the
  routine once when the cache was unset and never when it was set. A read of the energy
  never invokes \<open>computeStress()\<close>, and a read of the stress never invokes
  \<open>computeEnergy()\<close>.
\<close>

theorem kSpace_cache_reads:
  fixes energy :: "'a MdCoulombPotential_scheme \<Rightarrow> real"
    and stress :: "'a MdCoulombPotential_scheme \<Rightarrow> Tensor"
    and updateE updateS :: "'a \<Rightarrow> 'a"
    and s :: "'a MdCoulombPotential_scheme" and c :: Calls
  defines "cE \<equiv> computeEnergy energy updateE"
  defines "cS \<equiv> computeStress stress updateS"
  shows "(\<not> isSet (kSpaceEnergy_m s) \<longrightarrow>
            kSpaceEnergy cE (s, c) =
              (Some (energy s), cE s, c\<lparr>nComputeEnergy := nComputeEnergy c + 1\<rparr>) \<and>
            isSet (kSpaceEnergy_m (cE s))) \<and>
         (isSet (kSpaceEnergy_m s) \<longrightarrow>
            kSpaceEnergy cE (s, c) = (kSpaceEnergy_m s, s, c)) \<and>
         (let (v1, w1) = kSpaceEnergy cE (s, c);
              (v2, w2) = kSpaceEnergy cE w1
          in v1 \<noteq> None \<and> v2 = v1 \<and> w2 = w1 \<and>
             nComputeEnergy (snd w2) =
               nComputeEnergy c + (if isSet (kSpaceEnergy_m s) then 0 else 1) \<and>
             nComputeStress (snd w2) = nComputeStress c) \<and>
         (\<not> isSet (kSpaceStress_m s) \<longrightarrow>
            kSpaceStress cS (s, c) =
              (Some (stress s), cS s, c\<lparr>nComputeStress := nComputeStress c + 1\<rparr>) \<and>
            isSet (kSpaceStress_m (cS s))) \<and>
         (isSet (kSpaceStress_m s) \<longrightarrow>
            kSpaceStress cS (s, c) = (kSpaceStress_m s, s, c)) \<and>
         (let (v1, w1) = kSpaceStress cS (s, c);
              (v2, w2) = kSpaceStress cS w1
          in v1 \<noteq> None \<and> v2 = v1 \<and> w2 = w1 \<and>
             nComputeStress (snd w2) =
               nComputeStress c + (if isSet (kSpaceStress_m s) then 0 else 1) \<and>
             nComputeEnergy (snd w2) = nComputeEnergy c)"
proof -
  note e = computeEnergy_sets [of energy updateE s, folded cE_def]
  note t = computeStress_sets [of stress updateS s, folded cS_def]
  show ?thesis
    using e t
    by (cases "isSet (kSpaceEnergy_m s)"; cases "isSet (kSpaceStress_m s)")
      (simp_all add: kSpaceEnergy_unset kSpaceEnergy_set kSpaceStress_unset kSpaceStress_set
        isSet_not_None del: not_None_eq)
qed

theorem kSpace_cache_reads_witness:
  "\<not> isSet (kSpaceEnergy_m (unsetEnergy examplePotential)) \<and>
   kSpaceEnergy (computeEnergy exampleEnergyOf id)
       (unsetEnergy examplePotential, \<lparr>nComputeEnergy = 0, nComputeStress = 0\<rparr>) =
     (Some 7, examplePotential\<lparr>kSpaceEnergy_m := Some 7\<rparr>,
      \<lparr>nComputeEnergy = 1, nComputeStress = 0\<rparr>) \<and>
   isSet (kSpaceEnergy_m (examplePotential\<lparr>kSpaceEnergy_m := Some 7\<rparr>)) \<and>
   kSpaceEnergy (computeEnergy exampleEnergyOf id)
       (examplePotential\<lparr>kSpaceEnergy_m := Some 7\<rparr>,
        \<lparr>nComputeEnergy = 1, nComputeStress = 0\<rparr>) =
     (Some 7, examplePotential\<lparr>kSpaceEnergy_m := Some 7\<rparr>,
      \<lparr>nComputeEnergy = 1, nComputeStress = 0\<rparr>) \<and>
   \<not> isSet (kSpaceStress_m (unsetStress examplePotential)) \<and>
   kSpaceStress (computeStress exampleStressOf id)
       (unsetStress examplePotential, \<lparr>nComputeEnergy = 0, nComputeStress = 0\<rparr>) =
     (Some ((1, 0, 0), (0, 1, 0), (0, 0, 1)),
      examplePotential\<lparr>kSpaceStress_m := Some ((1, 0, 0), (0, 1, 0), (0, 0, 1))\<rparr>,
      \<lparr>nComputeEnergy = 0, nComputeStress = 1\<rparr>) \<and>
   isSet (kSpaceStress_m examplePotential) \<and>
   kSpaceStress (computeStress exampleStressOf id)
       (examplePotential, \<lparr>nComputeEnergy = 0, nComputeStress = 0\<rparr>) =
     (Some ((2, 0, 0), (0, 2, 0), (0, 0, 2)), examplePotential,
      \<lparr>nComputeEnergy = 0, nComputeStress = 0\<rparr>)"
proof -
  let ?c0 = "\<lparr>nComputeEnergy = 0, nComputeStress = 0\<rparr>"
  let ?c1 = "\<lparr>nComputeEnergy = 1, nComputeStress = 0\<rparr>"
  let ?p7 = "examplePotential\<lparr>kSpaceEnergy_m := Some 7\<rparr>"
  have u: "\<not> isSet (kSpaceEnergy_m (unsetEnergy examplePotential))"
    by (simp add: unsetEnergy_def unset_def isSet_def)
  have v: "isSet (kSpaceEnergy_m ?p7)"
    by (simp add: isSet_def)
  have x: "\<not> isSet (kSpaceStress_m (unsetStress examplePotential))"
    by (simp add: unsetStress_def unset_def isSet_def)
  have y: "isSet (kSpaceStress_m examplePotential)"
    by (simp add: examplePotential_def isSet_def)
  have ce: "computeEnergy exampleEnergyOf id (unsetEnergy examplePotential) = ?p7"
    by (simp add: computeEnergy_def exampleEnergyOf_def unsetEnergy_def examplePotential_def)
  have cs: "computeStress exampleStressOf id (unsetStress examplePotential) =
      examplePotential\<lparr>kSpaceStress_m := Some ((1, 0, 0), (0, 1, 0), (0, 0, 1))\<rparr>"
    by (simp add: computeStress_def exampleStressOf_def unsetStress_def examplePotential_def)
  have ee: "exampleEnergyOf (unsetEnergy examplePotential) = 7"
    by (simp add: exampleEnergyOf_def unsetEnergy_def examplePotential_def)
  have 1: "kSpaceEnergy (computeEnergy exampleEnergyOf id) (unsetEnergy examplePotential, ?c0) =
     (Some 7, ?p7, ?c1)"
    using u kSpace_cache_reads [of "unsetEnergy examplePotential" exampleEnergyOf id ?c0]
    by (simp add: ce ee)
  have 2: "kSpaceEnergy (computeEnergy exampleEnergyOf id) (?p7, ?c1) = (Some 7, ?p7, ?c1)"
    using v kSpace_cache_reads [of ?p7 exampleEnergyOf id ?c1]
    by simp
  have 3: "kSpaceStress (computeStress exampleStressOf id) (unsetStress examplePotential, ?c0) =
     (Some ((1, 0, 0), (0, 1, 0), (0, 0, 1)),
      examplePotential\<lparr>kSpaceStress_m := Some ((1, 0, 0), (0, 1, 0), (0, 0, 1))\<rparr>,
      \<lparr>nComputeEnergy = 0, nComputeStress = 1\<rparr>)"
    using x kSpace_cache_reads [of "unsetStress examplePotential" _ _ ?c0 exampleStressOf id]
    by (simp add: cs exampleStressOf_def)
  have 4: "kSpaceStress (computeStress exampleStressOf id) (examplePotential, ?c0) =
     (Some ((2, 0, 0), (0, 2, 0), (0, 0, 2)), examplePotential, ?c0)"
    using y kSpace_cache_reads [of examplePotential _ _ ?c0 exampleStressOf id]
    by (simp add: examplePotential_def)
  from u v x y 1 2 3 4 show ?thesis by blast
qed

text \<open>
  Claim C5, as stated: after \<open>unsetWaves()\<close> the cached k-space energy and stress are no
  longer set. It fails on an object whose two caches are set: \<open>unsetWaves()\<close> leaves both
  of them set.
\<close>

theorem unsetWaves_unsets_caches_counterexample:
  "isSet (kSpaceEnergy_m examplePotential) \<and>
   isSet (kSpaceStress_m examplePotential) \<and>
   isSet (kSpaceEnergy_m (unsetWaves examplePotential)) \<and>
   isSet (kSpaceStress_m (unsetWaves examplePotential))"
  by (simp add: unsetWaves_def examplePotential_def isSet_def)

text \<open>
  Claim C5, amended: \<open>unsetWaves()\<close> clears the flag \<open>hasWaves_\<close> and changes nothing
  else: the cached k-space energy and stress, set or unset, stay as they are.
  \<open>unsetEnergy()\<close> unsets the energy cache and nothing else, \<open>unsetStress()\<close> the stress
  cache and nothing else.
\<close>

theorem unsetWaves_frame:
  "hasWaves_m (unsetWaves s) = False \<and>
   kSpaceEnergy_m (unsetWaves s) = kSpaceEnergy_m s \<and>
   kSpaceStress_m (unsetWaves s) = kSpaceStress_m s \<and>
   isInitialized_m (unsetWaves s) = isInitialized_m s \<and>
   MdCoulombPotential.more (unsetWaves s) = MdCoulombPotential.more s \<and>
   unsetEnergy s = s\<lparr>kSpaceEnergy_m := None\<rparr> \<and>
   unsetStress s = s\<lparr>kSpaceStress_m := None\<rparr>"
  by (simp add: unsetWaves_def unsetEnergy_def unsetStress_def unset_def)

section \<open>Properties of SpCell\<close>

lemma int32_id: "- (2 ^ 31) \<le> x \<Longrightarrow> x < 2 ^ 31 \<Longrightarrow> int32 x = x"
  by (simp add: int32_def)

lemma int32_add_left: "int32 (int32 x + y) = int32 (x + y)"
proof -
  have e: "int32 x + y + 2 ^ 31 = (x + 2 ^ 31) mod 2 ^ 32 + y"
    unfolding int32_def by linarith
  have "(int32 x + y + 2 ^ 31) mod 2 ^ 32 = ((x + 2 ^ 31) mod 2 ^ 32 + y) mod 2 ^ 32"
    by (simp only: e)
  also have "\<dots> = (x + 2 ^ 31 + y) mod 2 ^ 32"
    by (rule mod_add_left_eq)
  also have "x + 2 ^ 31 + y = x + y + 2 ^ 31" by linarith
  finally show ?thesis unfolding int32_def by (simp only:)
qed

lemma incrementCapacityTimes_eq:
  "begin_m c = 0 \<Longrightarrow>
   incrementCapacityTimes n c =
     Inr (c\<lparr>atomCapacity_m := (if n = 0 then atomCapacity_m c else int32 (atomCapacity_m c + int n))\<rparr>)"
proof (induction n arbitrary: c)
  case 0
  then show ?case by simp
next
  case (Suc n)
  let ?c = "c\<lparr>atomCapacity_m := int32 (atomCapacity_m c + 1)\<rparr>"
  have step: "incrementCapacity c = Inr ?c"
    using Suc.prems by (simp add: incrementCapacity_def)
  have b: "begin_m ?c = 0" using Suc.prems by simp
  have e: "int32 (int32 (atomCapacity_m c + 1) + int n) = int32 (atomCapacity_m c + int (Suc n))"
    unfolding int32_add_left by (simp add: add.commute add.left_commute)
  have z: "int32 (atomCapacity_m c + 1) = int32 (atomCapacity_m c + int (Suc 0))" by simp
  show ?case
    using Suc.IH [OF b] step e by (cases "n = 0") simp_all
qed

lemma appendAll_eq:
  "begin_m c \<noteq> 0 \<Longrightarrow> 0 \<le> nAtom_m c \<Longrightarrow>
   nAtom_m c + int (length as) \<le> atomCapacity_m c \<Longrightarrow> atomCapacity_m c < 2 ^ 31 \<Longrightarrow>
   \<exists>m'. appendAll as (c, m) = Inr (c\<lparr>nAtom_m := nAtom_m c + int (length as)\<rparr>, m')"
proof (induction as arbitrary: c m)
  case Nil
  then show ?case by simp
next
  case (Cons a as)
  let ?c = "c\<lparr>nAtom_m := nAtom_m c + 1\<rparr>"
  let ?m = "m(begin_m c + nAtom_m c := a)"
  have w: "int32 (nAtom_m c + 1) = nAtom_m c + 1"
    using Cons.prems by (intro int32_id) simp_all
  have step: "append a (c, m) = Inr (?c, ?m)"
    using Cons.prems by (simp add: append_def w)
  have "begin_m ?c \<noteq> 0" "0 \<le> nAtom_m ?c"
    "nAtom_m ?c + int (length as) \<le> atomCapacity_m ?c" "atomCapacity_m ?c < 2 ^ 31"
    using Cons.prems by simp_all
  from Cons.IH [OF this, of ?m] obtain m' where
    "appendAll as (?c, ?m) = Inr (?c\<lparr>nAtom_m := nAtom_m ?c + int (length as)\<rparr>, m')" ..
  with step show ?case by (simp add: add.assoc)
qed

text \<open>
  Claim C6, as stated: for any \<open>N\<close> and any \<open>begin\<close>. After \<open>initialize\<close> with the null
  pointer, which no assertion of \<open>initialize\<close> excludes, a further \<open>incrementCapacity()\<close>
  passes its assertion and raises the capacity, and the first \<open>append\<close> already fails,
  on the assertion \<open>begin_ != 0\<close>. And after \<open>2^31\<close> calls of \<open>incrementCapacity()\<close> the
  capacity is not \<open>2^31\<close> but \<open>- 2^31\<close>, and \<open>initialize\<close> fails its third assertion.
\<close>

theorem SpCell_capacity_discipline_counterexample:
  "incrementCapacityTimes 2 (clear exampleCell) =
     Inr ((clear exampleCell)\<lparr>atomCapacity_m := 2\<rparr>) \<and>
   initialize 0 ((clear exampleCell)\<lparr>atomCapacity_m := 2\<rparr>) =
     Inr (2, (clear exampleCell)\<lparr>atomCapacity_m := 2\<rparr>) \<and>
   incrementCapacity ((clear exampleCell)\<lparr>atomCapacity_m := 2\<rparr>) =
     Inr ((clear exampleCell)\<lparr>atomCapacity_m := 3\<rparr>) \<and>
   append 7 ((clear exampleCell)\<lparr>atomCapacity_m := 2\<rparr>, \<lambda>p. 0) =
     Inl (AssertionFailed ''begin_ != 0'') \<and>
   incrementCapacityTimes (2 ^ 31) (clear exampleCell) =
     Inr ((clear exampleCell)\<lparr>atomCapacity_m := - (2 ^ 31)\<rparr>) \<and>
   atomCapacity ((clear exampleCell)\<lparr>atomCapacity_m := - (2 ^ 31)\<rparr>) \<noteq> 2 ^ 31 \<and>
   initialize 100 ((clear exampleCell)\<lparr>atomCapacity_m := - (2 ^ 31)\<rparr>) =
     Inl (AssertionFailed ''atomCapacity_  >= 0'')"
proof -
  have b: "begin_m (clear exampleCell) = 0" by (simp add: clear_def)
  have 1: "incrementCapacityTimes 2 (clear exampleCell) =
     Inr ((clear exampleCell)\<lparr>atomCapacity_m := 2\<rparr>)"
    using incrementCapacityTimes_eq [OF b, of 2] by (simp add: clear_def int32_def)
  have 2: "incrementCapacityTimes (2 ^ 31) (clear exampleCell) =
     Inr ((clear exampleCell)\<lparr>atomCapacity_m := - (2 ^ 31)\<rparr>)"
    using incrementCapacityTimes_eq [OF b, of "2 ^ 31"] by (simp add: clear_def int32_def)
  have 3: "initialize 0 ((clear exampleCell)\<lparr>atomCapacity_m := 2\<rparr>) =
     Inr (2, (clear exampleCell)\<lparr>atomCapacity_m := 2\<rparr>)"
    by (simp add: initialize_def clear_def)
  have 4: "incrementCapacity ((clear exampleCell)\<lparr>atomCapacity_m := 2\<rparr>) =
     Inr ((clear exampleCell)\<lparr>atomCapacity_m := 3\<rparr>)"
    by (simp add: incrementCapacity_def clear_def int32_def)
  have 5: "append 7 ((clear exampleCell)\<lparr>atomCapacity_m := 2\<rparr>, \<lambda>p. 0) =
     Inl (AssertionFailed ''begin_ != 0'')"
    by (simp add: append_def clear_def)
  have 6: "atomCapacity ((clear exampleCell)\<lparr>atomCapacity_m := - (2 ^ 31)\<rparr>) \<noteq> 2 ^ 31"
    by (simp add: atomCapacity_def)
  have 7: "initialize 100 ((clear exampleCell)\<lparr>atomCapacity_m := - (2 ^ 31)\<rparr>) =
     Inl (AssertionFailed ''atomCapacity_  >= 0'')"
    by (simp add: initialize_def clear_def)
  from 1 2 3 4 5 6 7 show ?thesis by blast
qed

text \<open>
  Claim C6, amended. Take any cell, cleared, any \<open>N\<close> below \<open>2^31\<close> and any pointer
  \<open>begin\<close> other than the null pointer. \<open>N\<close> calls of \<open>incrementCapacity()\<close> succeed;
  \<open>initialize(begin)\<close> then succeeds and returns \<open>begin + N\<close>, and \<open>atomCapacity()\<close> is
  \<open>N\<close>. A further \<open>incrementCapacity()\<close> fails the assertion \<open>begin_ == 0\<close>. Any \<open>N\<close>
  calls of \<open>append\<close> succeed, and every further \<open>append\<close> fails the assertion
  \<open>nAtom_ < atomCapacity_\<close>.
\<close>

theorem SpCell_capacity_discipline:
  fixes c :: SpCell and N :: nat and "begin" :: pointer
  defines "sized \<equiv> (clear c)\<lparr>atomCapacity_m := int N\<rparr>"
  defines "bound \<equiv> sized\<lparr>begin_m := begin\<rparr>"
  assumes "begin \<noteq> 0" and "N < 2 ^ 31"
  shows "incrementCapacityTimes N (clear c) = Inr sized \<and>
         initialize begin sized = Inr (begin + int N, bound) \<and>
         atomCapacity bound = int N \<and>
         incrementCapacity bound = Inl (AssertionFailed ''begin_ == 0'') \<and>
         (\<forall>as m. length as = N \<longrightarrow>
            (\<exists>m'. appendAll as (bound, m) = Inr (bound\<lparr>nAtom_m := int N\<rparr>, m') \<and>
                  (\<forall>a. append a (bound\<lparr>nAtom_m := int N\<rparr>, m') =
                         Inl (AssertionFailed ''nAtom_ < atomCapacity_''))))"
proof -
  have N: "int N < 2 ^ 31" using assms(4) by (simp flip: of_nat_less_iff)
  have w: "int32 (int N) = int N" using N by (intro int32_id) simp_all
  have 1: "incrementCapacityTimes N (clear c) = Inr sized"
    using incrementCapacityTimes_eq [of "clear c" N] w
    by (cases "N = 0") (simp_all add: sized_def clear_def)
  have 2: "initialize begin sized = Inr (begin + int N, bound)"
    by (simp add: initialize_def sized_def bound_def clear_def)
  have 3: "atomCapacity bound = int N"
    by (simp add: atomCapacity_def sized_def bound_def)
  have 4: "incrementCapacity bound = Inl (AssertionFailed ''begin_ == 0'')"
    using assms(3) by (simp add: incrementCapacity_def bound_def)
  have 5: "\<exists>m'. appendAll as (bound, m) = Inr (bound\<lparr>nAtom_m := int N\<rparr>, m') \<and>
                  (\<forall>a. append a (bound\<lparr>nAtom_m := int N\<rparr>, m') =
                         Inl (AssertionFailed ''nAtom_ < atomCapacity_''))"
    if "length as = N" for as m
  proof -
    have b: "begin_m bound \<noteq> 0" and n: "nAtom_m bound = 0"
      and k: "atomCapacity_m bound = int N"
      using assms(3) by (simp_all add: bound_def sized_def clear_def)
    have "0 \<le> nAtom_m bound" "nAtom_m bound + int (length as) \<le> atomCapacity_m bound"
      "atomCapacity_m bound < 2 ^ 31"
      using n k that N by simp_all
    from appendAll_eq [OF b this, of m] obtain m' where
      "appendAll as (bound, m) =
         Inr (bound\<lparr>nAtom_m := nAtom_m bound + int (length as)\<rparr>, m')" ..
    then have "appendAll as (bound, m) = Inr (bound\<lparr>nAtom_m := int N\<rparr>, m')"
      using n that by simp
    moreover have "append a (bound\<lparr>nAtom_m := int N\<rparr>, m') =
                         Inl (AssertionFailed ''nAtom_ < atomCapacity_'')" for a
      using assms(3) by (simp add: append_def bound_def sized_def)
    ultimately show ?thesis by blast
  qed
  from 1 2 3 4 5 show ?thesis by blast
qed

theorem SpCell_capacity_discipline_witness:
  "(100::pointer) \<noteq> 0 \<and> (2::nat) < 2 ^ 31 \<and>
   incrementCapacityTimes 2 (clear exampleCell) =
     Inr ((clear exampleCell)\<lparr>atomCapacity_m := 2\<rparr>) \<and>
   initialize 100 ((clear exampleCell)\<lparr>atomCapacity_m := 2\<rparr>) =
     Inr (102, (clear exampleCell)\<lparr>atomCapacity_m := 2, begin_m := 100\<rparr>) \<and>
   incrementCapacity ((clear exampleCell)\<lparr>atomCapacity_m := 2, begin_m := 100\<rparr>) =
     Inl (AssertionFailed ''begin_ == 0'') \<and>
   (\<exists>m'. appendAll [7, 8] ((clear exampleCell)\<lparr>atomCapacity_m := 2, begin_m := 100\<rparr>, \<lambda>p. 0) =
           Inr ((clear exampleCell)\<lparr>atomCapacity_m := 2, begin_m := 100, nAtom_m := 2\<rparr>, m') \<and>
         append 9 ((clear exampleCell)\<lparr>atomCapacity_m := 2, begin_m := 100, nAtom_m := 2\<rparr>, m') =
           Inl (AssertionFailed ''nAtom_ < atomCapacity_''))"
proof -
  have h: "(100::pointer) \<noteq> 0" by simp
  have n: "(2::nat) < 2 ^ 31" by simp
  have len: "length [7, 8 :: pointer] = 2" by simp
  from SpCell_capacity_discipline [OF h n, of exampleCell] len
  show ?thesis by fastforce
qed

section \<open>Properties of TextFileOArchive\<close>

lemma pack_double_written:
  "written (pack_double d os) =
     written os @ [Inserted (DoubleV d) (fmt_flags os \<union> {scientific}) 25 17, Newline]"
  by (simp add: pack_double_def setf_def width_def precision_def ostream_insert_def endl_def)

lemma pack_double_state:
  "fmt_flags (pack_double d os) = fmt_flags os \<union> {scientific} \<and>
   fmt_width (pack_double d os) = 0 \<and> fmt_precision (pack_double d os) = 17"
  by (simp add: pack_double_def setf_def width_def precision_def ostream_insert_def endl_def)

text \<open>
  Claim C7, amended. \<open>pack\<close> of a double adds \<open>scientific\<close> to the format flags of the
  stream, and writes the value under these flags, width 25 and precision 17, then one
  line break, and nothing else. On a stream whose flag \<open>fixed\<close> is clear, the value is
  therefore written in scientific notation, with 17 digits after the decimal point (18
  significant digits).
\<close>

theorem pack_double_format:
  "written (pack_double d os) =
     written os @ [Inserted (DoubleV d) (fmt_flags os \<union> {scientific}) 25 17, Newline] \<and>
   (fixed \<notin> fmt_flags os \<longrightarrow>
      floatfield (fmt_flags os \<union> {scientific}) = ScientificNotation \<and>
      significantDigits (Inserted (DoubleV d) (fmt_flags os \<union> {scientific}) 25 17) = Some 18)"
  by (simp add: pack_double_written floatfield_def significantDigits_def)

theorem pack_double_format_witness:
  "fixed \<notin> fmt_flags freshStream \<and>
   written (pack_double 1 freshStream) = [Inserted (DoubleV 1) {scientific} 25 17, Newline] \<and>
   floatfield {scientific} = ScientificNotation \<and>
   significantDigits (Inserted (DoubleV 1) {scientific} 25 17) = Some 18"
  using pack_double_format [of 1 freshStream]
  by (simp add: freshStream_def)

text \<open>
  Claim C7, as stated: the double is written in scientific notation with 17 significant
  digits. On a stream whose flag \<open>fixed\<close> is set, the value is written under both
  \<open>fixed\<close> and \<open>scientific\<close>, which does not select the scientific notation; and on a
  fresh stream the value has not 17 significant digits.
\<close>

theorem pack_double_scientific_counterexample:
  "written (pack_double 1 fixedStream) = [Inserted (DoubleV 1) {fixed, scientific} 25 17, Newline] \<and>
   floatfield {fixed, scientific} \<noteq> ScientificNotation \<and>
   written (pack_double 1 freshStream) = [Inserted (DoubleV 1) {scientific} 25 17, Newline] \<and>
   significantDigits (Inserted (DoubleV 1) {scientific} 25 17) \<noteq> Some 17"
  by (auto simp add: pack_double_written fixedStream_def freshStream_def floatfield_def
      significantDigits_def)

lemma pack_array_loop_settled:
  "settled fl os \<Longrightarrow>
   settled fl (pack_array_loop xs os) \<and>
   (\<exists>later. written (pack_array_loop xs os) = written os @ later \<and>
            (\<forall>e \<in> set later. insertedUnder fl {0} 17 e))"
proof (induction xs arbitrary: os)
  case Nil
  then show ?case by simp
next
  case (Cons x xs)
  let ?os = "ostream_insert (StringV ''  '') (ostream_insert x os)"
  have s: "settled fl ?os"
    using Cons.prems by (simp add: settled_def ostream_insert_def)
  have w: "written ?os = written os @ [Inserted x fl 0 17, Inserted (StringV ''  '') fl 0 17]"
    using Cons.prems by (simp add: settled_def ostream_insert_def)
  from Cons.IH [OF s] obtain later where
    l: "settled fl (pack_array_loop xs ?os)"
       "written (pack_array_loop xs ?os) = written ?os @ later"
       "\<forall>e \<in> set later. insertedUnder fl {0} 17 e"
    by blast
  have "written (pack_array_loop (x # xs) os) =
          written os @ ([Inserted x fl 0 17, Inserted (StringV ''  '') fl 0 17] @ later)"
    using l(2) w by simp
  moreover have "\<forall>e \<in> set ([Inserted x fl 0 17, Inserted (StringV ''  '') fl 0 17] @ later).
                    insertedUnder fl {0} 17 e"
    using l(3) by simp
  ultimately show ?case using l(1) by (metis pack_array_loop.simps(2))
qed

lemma writeOne_settled:
  assumes "settled fl os" and "scientific \<in> fl"
  shows "settled fl (writeOne w os) \<and>
         (\<exists>later. written (writeOne w os) = written os @ later \<and>
            (\<forall>e \<in> set later. insertedUnder fl (if isPackDouble w then {25} else {0}) 17 e))"
proof (cases w)
  case (Pack x)
  then show ?thesis using assms
    by (simp add: settled_def pack_def ostream_insert_def endl_def)
next
  case (PackDouble d)
  have "fl \<union> {scientific} = fl" using assms(2) by blast
  then show ?thesis using assms PackDouble
    by (simp add: settled_def pack_double_written pack_double_state)
next
  case (PackArray xs)
  from pack_array_loop_settled [OF assms(1), of xs] obtain later where
    l: "settled fl (pack_array_loop xs os)"
       "written (pack_array_loop xs os) = written os @ later"
       "\<forall>e \<in> set later. insertedUnder fl {0} 17 e"
    by blast
  have "settled fl (pack_array xs os)"
    using l(1) by (simp add: pack_array_def endl_def settled_def)
  moreover have "written (pack_array xs os) = written os @ (later @ [Newline])"
    using l(2) by (simp add: pack_array_def endl_def)
  moreover have "\<forall>e \<in> set (later @ [Newline]). insertedUnder fl {0} 17 e"
    using l(3) by simp
  ultimately show ?thesis using PackArray by (metis isPackDouble.simps(3) writeOne.simps(3))
next
  case (OtherInsert x)
  then show ?thesis using assms
    by (simp add: settled_def ostream_insert_def)
next
  case OtherEndl
  then show ?thesis using assms
    by (simp add: settled_def endl_def)
qed

lemma insertedUnder_mono:
  "insertedUnder fl ws p e \<Longrightarrow> ws \<subseteq> ws' \<Longrightarrow> insertedUnder fl ws' p e"
  by (cases e) auto

lemma writes_settled:
  assumes "settled fl os" and "scientific \<in> fl"
  shows "settled fl (writes ws os) \<and>
         (\<exists>later. written (writes ws os) = written os @ later \<and>
            (\<forall>e \<in> set later. insertedUnder fl {0, 25} 17 e) \<and>
            ((\<forall>w \<in> set ws. \<not> isPackDouble w) \<longrightarrow>
               (\<forall>e \<in> set later. insertedUnder fl {0} 17 e)))"
  using assms(1)
proof (induction ws arbitrary: os)
  case Nil
  then show ?case by simp
next
  case (Cons w ws)
  from writeOne_settled [OF Cons.prems assms(2), of w] obtain l1 where
    a: "settled fl (writeOne w os)" "written (writeOne w os) = written os @ l1"
       "\<forall>e \<in> set l1. insertedUnder fl (if isPackDouble w then {25} else {0}) 17 e"
    by blast
  from Cons.IH [OF a(1)] obtain l2 where
    b: "settled fl (writes ws (writeOne w os))"
       "written (writes ws (writeOne w os)) = written (writeOne w os) @ l2"
       "\<forall>e \<in> set l2. insertedUnder fl {0, 25} 17 e"
       "(\<forall>w \<in> set ws. \<not> isPackDouble w) \<longrightarrow> (\<forall>e \<in> set l2. insertedUnder fl {0} 17 e)"
    by blast
  have 1: "written (writes (w # ws) os) = written os @ (l1 @ l2)"
    using a(2) b(2) by simp
  have 2: "\<forall>e \<in> set (l1 @ l2). insertedUnder fl {0, 25} 17 e"
    using a(3) b(3) by (auto elim: insertedUnder_mono split: if_splits)
  have 3: "(\<forall>w \<in> set (w # ws). \<not> isPackDouble w) \<longrightarrow>
             (\<forall>e \<in> set (l1 @ l2). insertedUnder fl {0} 17 e)"
    using a(3) b(4) by auto
  from b(1) 1 2 3 show ?case by (metis writes.simps(2))
qed

text \<open>
  Claim C10, amended. \<open>pack\<close> of a double leaves the stream with the flag
  \<open>scientific\<close> added to its flags (none cleared), precision 17 and width 0. Whatever is
  written afterwards by the archive's \<open>pack\<close> functions or by a writer that inserts
  without changing the format state, the flags and the precision stay so: every later
  value is written under these flags and precision 17, with width 25 only when a later
  \<open>pack\<close> of a double writes it and with width 0 otherwise. The flags select the
  scientific notation when the flag \<open>fixed\<close> was clear before the first double.
\<close>

theorem pack_double_settings_persist:
  fixes os :: ostream and d :: real and ws :: "writer list"
  defines "fl \<equiv> fmt_flags os \<union> {scientific}"
  shows "fmt_flags (pack_double d os) = fl \<and>
         fmt_precision (pack_double d os) = 17 \<and>
         fmt_width (pack_double d os) = 0 \<and>
         fmt_flags (writes ws (pack_double d os)) = fl \<and>
         fmt_precision (writes ws (pack_double d os)) = 17 \<and>
         (\<exists>later. written (writes ws (pack_double d os)) = written (pack_double d os) @ later \<and>
            (\<forall>e \<in> set later. insertedUnder fl {0, 25} 17 e) \<and>
            ((\<forall>w \<in> set ws. \<not> isPackDouble w) \<longrightarrow>
               (\<forall>e \<in> set later. insertedUnder fl {0} 17 e))) \<and>
         (fixed \<notin> fmt_flags os \<longrightarrow> floatfield fl = ScientificNotation)"
proof -
  have s: "settled fl (pack_double d os)"
    by (simp add: settled_def pack_double_state fl_def)
  have m: "scientific \<in> fl" by (simp add: fl_def)
  from writes_settled [OF s m, of ws] show ?thesis
    using s by (auto simp add: settled_def floatfield_def fl_def)
qed

theorem pack_double_settings_persist_witness:
  "written (writes [Pack (IntV 5), OtherInsert (DoubleV 2)] (pack_double 1 freshStream)) =
     written (pack_double 1 freshStream) @
       [Inserted (IntV 5) {scientific} 0 17, Newline, Inserted (DoubleV 2) {scientific} 0 17] \<and>
   insertedUnder {scientific} {0} 17 (Inserted (IntV 5) {scientific} 0 17) \<and>
   insertedUnder {scientific} {0} 17 (Inserted (DoubleV 2) {scientific} 0 17) \<and>
   \<not> isPackDouble (Pack (IntV 5)) \<and> \<not> isPackDouble (OtherInsert (DoubleV 2)) \<and>
   fixed \<notin> fmt_flags freshStream \<and>
   floatfield (fmt_flags freshStream \<union> {scientific}) = ScientificNotation"
  using pack_double_settings_persist [of 1 freshStream "[Pack (IntV 5), OtherInsert (DoubleV 2)]"]
  by (simp add: freshStream_def pack_double_written pack_double_state pack_def
      ostream_insert_def endl_def floatfield_def)

text \<open>
  Claim C10, as stated: every later value, whoever writes it, is formatted with
  scientific notation and precision 17. Another writer that calls \<open>precision(3)\<close> on the
  stream before it inserts a double has it written with precision 3. And on a stream
  whose flag \<open>fixed\<close> is set, a double packed generically after a packed double is
  written under both \<open>fixed\<close> and \<open>scientific\<close>, which does not select the scientific
  notation.
\<close>

theorem pack_double_later_scientific_counterexample:
  "written (ostream_insert (DoubleV 2) (precision 3 (pack_double 1 freshStream))) =
     [Inserted (DoubleV 1) {scientific} 25 17, Newline,
      Inserted (DoubleV 2) {scientific} 0 3] \<and>
   \<not> insertedUnder {scientific} {0} 17 (Inserted (DoubleV 2) {scientific} 0 3) \<and>
   written (writes [Pack (DoubleV 2)] (pack_double 1 fixedStream)) =
     [Inserted (DoubleV 1) {fixed, scientific} 25 17, Newline,
      Inserted (DoubleV 2) {fixed, scientific} 0 17, Newline] \<and>
   floatfield {fixed, scientific} \<noteq> ScientificNotation"
  by (auto simp add: fixedStream_def freshStream_def pack_double_written pack_double_state
      pack_def ostream_insert_def endl_def floatfield_def precision_def)

section \<open>Properties of makeWaves\<close>

subsection \<open>The loops store the waves of the list\<close>









declare loopK2.simps [simp del] loopK1.simps [simp del] loopK0.simps [simp del]





subsection \<open>The order of the stored waves\<close>














subsection \<open>The second pass\<close>













subsection \<open>The result of makeWaves\<close>









subsection \<open>The example\<close>






subsection \<open>The stored waves and the bound check\<close>











subsection \<open>Reserving and clearing\<close>




section \<open>The k-space energy and forces\<close>

subsection \<open>The charge density\<close>








subsection \<open>makeWaves on the cubic box\<close>






subsection \<open>kspaceEnergy\<close>




lemma chargeDensity_exampleA [simp]:
  "chargeDensity cubicBoundary exampleTypes [exampleAtomA] k = 1"
  by (simp add: chargeDensity_def cubicBoundary_def exampleTypes_def exampleAtomA_def
      Vector_multiply_def Vector_dot_def)







subsection \<open>addKSpaceForces\<close>











subsection \<open>A run of addKSpaceForces\<close>









end
